theory Spec2Isabelle
  imports Complex_Main
begin

section \<open>Data model of StockProject.py\<close>

text \<open>
  Numbers are modelled as exact reals: rounding and overflow of floating point are
  outside the model. The cells of a statement are numpy scalars, and so is every value the
  valuation derives from the free cash flow: dividing one by zero raises nothing, it
  gives an infinity or a NaN (and a warning, which is not modelled) and the computation
  goes on. Such values are an \<open>npfloat\<close>: a finite real or one of the three special
  values.

  A financial statement is a pandas table: its row labels (\<open>statement.index\<close>), its
  period columns (\<open>statement.columns\<close>, most recent first) and the cell at a label and
  a period. The market-data provider's answer for one ticker is a \<open>company\<close>:
  reading \<open>financials\<close> or \<open>cashflow\<close> may raise, \<open>info\<close> is a dictionary.
  \<open>FetchError\<close> stands for whatever exception an external service raises.
\<close>

type_synonym period = string

datatype py_error = IndexError | KeyError | TypeError | FetchError

datatype npfloat = Finite real | PosInf | NegInf | NaN

record statement =
  index :: "string list"
  columns :: "period list"
  cell :: "string \<Rightarrow> period \<Rightarrow> real"

record company =
  financials :: "py_error + statement"
  cashflow :: "py_error + statement"
  info :: "string \<rightharpoonup> real"

text \<open>The tuple returned at line 64, with the field names of the specification.\<close>

record valuation_result =
  intrinsicValue :: npfloat
  marketCap :: real
  upsidePercent :: npfloat
  perYearDiscountedFCF :: "npfloat list"
  discountedTerminalValue :: npfloat

text \<open>
  The answer of the news service: the status code and the decoded body, of which only the
  \<open>articles\<close> entry is read. A JSON value is a string or something else (null, a
  number, a list), and only a string can be concatenated with a string. An article is a
  JSON object that may lack its title or its description. The \<open>articles\<close> entry is
  a list of articles or something that cannot be sliced.
\<close>

datatype json_value = JString string | JNull | JOther

record article =
  title :: "json_value option"
  description :: "json_value option"

datatype json_articles = Articles "article list" | NotAList

record response =
  status_code :: int
  json :: "py_error + (string \<rightharpoonup> json_articles)"

text \<open>What \<open>evaluate_security\<close> prints and plots after a successful valuation.\<close>

record evaluation =
  valuation :: valuation_result
  sentiment_score :: real
  adjusted_upside :: npfloat

section \<open>Python primitives\<close>

text \<open>Sequencing of computations that may raise: the first failure is the result.\<close>

definition bind_err :: "py_error + 'a \<Rightarrow> ('a \<Rightarrow> py_error + 'b) \<Rightarrow> py_error + 'b" where
  "bind_err m f = (case m of Inl e \<Rightarrow> Inl e | Inr v \<Rightarrow> f v)"

text \<open>A list comprehension whose elements may raise stops at the first one that does.\<close>

fun sequence_err :: "(py_error + 'a) list \<Rightarrow> py_error + 'a list" where
  "sequence_err [] = Inr []"
| "sequence_err (m # ms) =
     bind_err m (\<lambda>v. bind_err (sequence_err ms) (\<lambda>vs. Inr (v # vs)))"

text \<open>
  Division of a numpy scalar by a Python float. The zero divisors of this program,
  \<open>(1 + r) ** i\<close> at \<open>r = -1\<close> and \<open>r - g\<close> at \<open>r = g\<close>, are positive zeros, so the sign
  of the quotient by zero is the sign of the dividend, and zero by zero is NaN.
\<close>

fun np_div :: "npfloat \<Rightarrow> real \<Rightarrow> npfloat" where
  "np_div (Finite a) b =
     (if b = 0 then (if 0 < a then PosInf else if a < 0 then NegInf else NaN)
      else Finite (a / b))"
| "np_div PosInf b = (if b < 0 then NegInf else PosInf)"
| "np_div NegInf b = (if b < 0 then PosInf else NegInf)"
| "np_div NaN b = NaN"

text \<open>Sum of two numpy scalars, difference and product with a Python number.\<close>

fun np_add :: "npfloat \<Rightarrow> npfloat \<Rightarrow> npfloat" where
  "np_add (Finite a) (Finite b) = Finite (a + b)"
| "np_add NaN y = NaN"
| "np_add x NaN = NaN"
| "np_add PosInf NegInf = NaN"
| "np_add NegInf PosInf = NaN"
| "np_add PosInf y = PosInf"
| "np_add x PosInf = PosInf"
| "np_add NegInf y = NegInf"
| "np_add x NegInf = NegInf"

fun np_sub :: "npfloat \<Rightarrow> real \<Rightarrow> npfloat" where
  "np_sub (Finite a) b = Finite (a - b)"
| "np_sub x b = x"

fun np_mul :: "npfloat \<Rightarrow> real \<Rightarrow> npfloat" where
  "np_mul (Finite a) b = Finite (a * b)"
| "np_mul NaN b = NaN"
| "np_mul PosInf b = (if 0 < b then PosInf else if b < 0 then NegInf else NaN)"
| "np_mul NegInf b = (if 0 < b then NegInf else if b < 0 then PosInf else NaN)"


text \<open>\<open>sum(xs)\<close> starts from 0 and adds the elements from left to right.\<close>

definition py_sum :: "real list \<Rightarrow> real" where
  "py_sum xs = foldl (+) 0 xs"

definition np_sum :: "npfloat list \<Rightarrow> npfloat" where
  "np_sum xs = foldl np_add (Finite 0) xs"

text \<open>\<open>d.get(key, default)\<close>.\<close>

definition dict_get :: "('k \<rightharpoonup> 'v) \<Rightarrow> 'k \<Rightarrow> 'v \<Rightarrow> 'v" where
  "dict_get d key dflt = (case d key of None \<Rightarrow> dflt | Some v \<Rightarrow> v)"

text \<open>\<open>xs[-1]\<close> raises on the empty list.\<close>

definition last_item :: "'a list \<Rightarrow> py_error + 'a" where
  "last_item xs = (if xs = [] then Inl IndexError else Inr (last xs))"

section \<open>FCF calculation\<close>

text \<open>
  \<open>statement.loc[label][col]\<close>: the row of a label, then its entry at a period; each of
  the two lookups raises \<open>KeyError\<close> on a key the table does not have.
\<close>

definition loc :: "statement \<Rightarrow> string \<Rightarrow> period \<Rightarrow> py_error + real" where
  "loc st label col =
     (if label \<in> set (index st) then
        (if col \<in> set (columns st) then Inr (cell st label col) else Inl KeyError)
      else Inl KeyError)"

fun safe_get :: "statement \<Rightarrow> string list \<Rightarrow> period \<Rightarrow> py_error + real" where
  "safe_get st [] col = Inr 0"
| "safe_get st (label # possible_labels) col =
     (if label \<in> set (index st) then loc st label col
      else safe_get st possible_labels col)"

text \<open>The body of the \<open>try\<close> block of \<open>calculate_fcf\<close> (lines 21 to 39), prints left out.\<close>

definition calculate_fcf_try :: "company \<Rightarrow> py_error + real" where
  "calculate_fcf_try c =
     bind_err (financials c) (\<lambda>income_stmt.
     bind_err (cashflow c) (\<lambda>cashflow_stmt.
     bind_err (case columns income_stmt of [] \<Rightarrow> Inl IndexError | p # _ \<Rightarrow> Inr p)
       (\<lambda>latest_year.
     bind_err (safe_get income_stmt [''Operating Income'', ''EBIT''] latest_year) (\<lambda>ebit.
     bind_err (safe_get cashflow_stmt
        [''Depreciation'', ''Depreciation & Amortization''] latest_year) (\<lambda>depreciation.
     bind_err (safe_get cashflow_stmt
        [''Capital Expenditures'', ''Capital expenditure''] latest_year) (\<lambda>capex.
     bind_err (safe_get cashflow_stmt
        [''Change in Working Capital'', ''Changes in working capital''] latest_year)
       (\<lambda>wc_change.
     Inr (ebit + depreciation - capex - wc_change))))))))"

text \<open>\<open>except Exception\<close>: every failure of the body becomes the result \<open>None\<close>.\<close>

definition calculate_fcf :: "company \<Rightarrow> real option" where
  "calculate_fcf c = (case calculate_fcf_try c of Inl e \<Rightarrow> None | Inr fcf \<Rightarrow> Some fcf)"

section \<open>DCF valuation\<close>

text \<open>Line 51: the projected cash flows of the years \<open>1..years\<close>.\<close>

definition future_fcfs_of :: "real \<Rightarrow> real \<Rightarrow> int \<Rightarrow> real list" where
  "future_fcfs_of fcf growth_rate years =
     map (\<lambda>i. fcf * (1 + growth_rate) ^ nat i) [1..years]"

text \<open>Line 52: each projected cash flow divided by the discount factor of its year.\<close>

definition discounted_fcfs_of :: "real list \<Rightarrow> real \<Rightarrow> npfloat list" where
  "discounted_fcfs_of future_fcfs discount_rate =
     map (\<lambda>(i, f). np_div (Finite f) ((1 + discount_rate) ^ i)) (enumerate 1 future_fcfs)"

text \<open>Line 54.\<close>

definition terminal_value_of :: "real list \<Rightarrow> real \<Rightarrow> real \<Rightarrow> py_error + npfloat" where
  "terminal_value_of future_fcfs discount_rate growth_rate =
     bind_err (last_item future_fcfs) (\<lambda>last_fcf.
       Inr (np_div (Finite (last_fcf * (1 + growth_rate))) (discount_rate - growth_rate)))"

text \<open>
  The result is \<open>Inl e\<close> when the call raises \<open>e\<close>, \<open>Inr None\<close> when it returns
  \<open>None\<close>, and \<open>Inr (Some res)\<close> when it returns the tuple \<open>res\<close>. The only raise
  left is the \<open>IndexError\<close> of \<open>future_fcfs[-1]\<close>.
\<close>

definition discounted_cash_flow_analysis ::
  "company \<Rightarrow> int \<Rightarrow> real \<Rightarrow> real \<Rightarrow> py_error + valuation_result option" where
  "discounted_cash_flow_analysis c years discount_rate growth_rate =
     (case calculate_fcf c of
        None \<Rightarrow> Inr None
      | Some fcf \<Rightarrow>
          if fcf \<le> 0 then Inr None
          else
            let future_fcfs = future_fcfs_of fcf growth_rate years in
            let discounted_fcfs = discounted_fcfs_of future_fcfs discount_rate in
            bind_err (terminal_value_of future_fcfs discount_rate growth_rate)
              (\<lambda>terminal_value.
            let discounted_terminal_value =
                  np_div terminal_value ((1 + discount_rate) ^ nat years);
                intrinsic_value = np_add (np_sum discounted_fcfs) discounted_terminal_value;
                market_cap = dict_get (info c) ''marketCap'' 0;
                upside = (if market_cap > 0
                          then np_mul (np_div (np_sub intrinsic_value market_cap) market_cap) 100
                          else Finite 0)
            in Inr (Some \<lparr>intrinsicValue = intrinsic_value, marketCap = market_cap,
                          upsidePercent = upside, perYearDiscountedFCF = discounted_fcfs,
                          discountedTerminalValue = discounted_terminal_value\<rparr>)))"

section \<open>News and sentiment\<close>

text \<open>
  Line 81, for one article: \<open>article["title"]\<close> raises \<open>KeyError\<close> when there is no
  title, a missing description counts as the empty string, and a title or a description
  that is not a string (a JSON null, say) makes the concatenation raise \<open>TypeError\<close>.
\<close>

definition article_text :: "article \<Rightarrow> py_error + string" where
  "article_text a =
     (case title a of
        None \<Rightarrow> Inl KeyError
      | Some (JString t) \<Rightarrow>
          (case description a of
             None \<Rightarrow> Inr (t @ ''. '' @ [])
           | Some (JString d) \<Rightarrow> Inr (t @ ''. '' @ d)
           | Some _ \<Rightarrow> Inl TypeError)
      | Some _ \<Rightarrow> Inl TypeError)"

text \<open>\<open>articles[:5]\<close>: the first five of a list; anything else cannot be sliced.\<close>

definition first_five :: "json_articles \<Rightarrow> py_error + article list" where
  "first_five articles =
     (case articles of Articles xs \<Rightarrow> Inr (take 5 xs) | NotAList \<Rightarrow> Inl TypeError)"

text \<open>
  Without an API key no request is made. With one, \<open>request\<close> is the outcome of
  \<open>requests.get\<close>; every failure inside the \<open>try\<close> block gives the empty list.
\<close>

definition get_security_news :: "string \<Rightarrow> py_error + response \<Rightarrow> string list" where
  "get_security_news api_key request =
     (if api_key = [] then []
      else
        case bind_err request (\<lambda>response.
               if status_code response \<noteq> 200 then Inr []
               else
                 bind_err (json response) (\<lambda>data.
                 bind_err (first_five (dict_get data ''articles'' (Articles []))) (\<lambda>articles.
                   sequence_err (map article_text articles)))) of
          Inl e \<Rightarrow> []
        | Inr news \<Rightarrow> news)"

text \<open>The polarity of a text is the answer of the external sentiment scorer.\<close>

definition analyze_sentiment :: "(string \<Rightarrow> real) \<Rightarrow> string list \<Rightarrow> real" where
  "analyze_sentiment polarity news_list =
     (if news_list = [] then 0
      else py_sum (map polarity news_list) / real (length news_list))"

section \<open>Evaluation\<close>

text \<open>
  \<open>evaluate_security\<close> calls the valuation with its default arguments. \<open>Inr None\<close>
  is the early exit of lines 101 to 103.
\<close>

definition evaluate_security ::
  "string \<Rightarrow> py_error + response \<Rightarrow> (string \<Rightarrow> real) \<Rightarrow> company
     \<Rightarrow> py_error + evaluation option" where
  "evaluate_security api_key request polarity c =
     bind_err (discounted_cash_flow_analysis c 5 0.10 0.05) (\<lambda>dcf_result.
       case dcf_result of
         None \<Rightarrow> Inr None
       | Some res \<Rightarrow>
           let news = get_security_news api_key request;
               sentiment_score = analyze_sentiment polarity news;
               adjusted_upside = np_add (upsidePercent res) (Finite (sentiment_score * 50))
           in Inr (Some \<lparr>valuation = res, sentiment_score = sentiment_score,
                         adjusted_upside = adjusted_upside\<rparr>))"

section \<open>The valuation formulas of the specification\<close>

text \<open>
  The formulas as the specification words them, with years counted from 1; the code is
  compared with them below.
\<close>

definition spec_futureFCF :: "real \<Rightarrow> real \<Rightarrow> nat \<Rightarrow> real" where
  "spec_futureFCF FCF g i = FCF * (1 + g) ^ i"

definition spec_discountedFCF :: "real \<Rightarrow> real \<Rightarrow> real \<Rightarrow> nat \<Rightarrow> real" where
  "spec_discountedFCF FCF r g i = spec_futureFCF FCF g i / (1 + r) ^ i"

definition spec_TV :: "real \<Rightarrow> nat \<Rightarrow> real \<Rightarrow> real \<Rightarrow> real" where
  "spec_TV FCF years r g = spec_futureFCF FCF g years * (1 + g) / (r - g)"

definition spec_discountedTV :: "real \<Rightarrow> nat \<Rightarrow> real \<Rightarrow> real \<Rightarrow> real" where
  "spec_discountedTV FCF years r g = spec_TV FCF years r g / (1 + r) ^ years"

definition spec_intrinsicValue :: "real \<Rightarrow> nat \<Rightarrow> real \<Rightarrow> real \<Rightarrow> real" where
  "spec_intrinsicValue FCF years r g =
     (\<Sum>i = 1..years. spec_discountedFCF FCF r g i) + spec_discountedTV FCF years r g"

definition spec_upside :: "real \<Rightarrow> real \<Rightarrow> real" where
  "spec_upside iv mc = (if mc > 0 then (iv - mc) / mc * 100 else 0)"

text \<open>The first candidate label, in priority order, that is a row label of the statement.\<close>

definition first_present :: "statement \<Rightarrow> string list \<Rightarrow> string option" where
  "first_present st labels = find (\<lambda>label. label \<in> set (index st)) labels"

text \<open>
  The resolver as the specification words it: the value at the first candidate label
  present in the row index, for the period; 0 if none match.
\<close>

definition spec_resolveField :: "statement \<Rightarrow> string list \<Rightarrow> period \<Rightarrow> real" where
  "spec_resolveField st labels col =
     (case first_present st labels of None \<Rightarrow> 0 | Some label \<Rightarrow> cell st label col)"

section \<open>Example data\<close>

text \<open>
  A company with two reporting periods whose latest figures give a free cash flow of
  1,000,000, and variants of it with no or a negative market capitalisation, with a
  missing EBIT row, with losses and with no data.
\<close>

definition ex_cell :: "string \<Rightarrow> period \<Rightarrow> real" where
  "ex_cell label col =
     (if col = ''2023'' then
        (if label = ''EBIT'' then 900000
         else if label = ''Depreciation & Amortization'' then 250000
         else if label = ''Capital Expenditures'' then 100000
         else if label = ''Change in Working Capital'' then 50000
         else 4000000)
      else 1)"

definition ex_income :: statement where
  "ex_income = \<lparr>index = [''Total Revenue'', ''EBIT''], columns = [''2023'', ''2022''],
                 cell = ex_cell\<rparr>"

definition ex_cashflow :: statement where
  "ex_cashflow =
     \<lparr>index = [''Depreciation & Amortization'', ''Capital Expenditures'',
               ''Change in Working Capital''],
      columns = [''2023'', ''2022''], cell = ex_cell\<rparr>"

definition ex_company :: company where
  "ex_company = \<lparr>financials = Inr ex_income, cashflow = Inr ex_cashflow,
                  info = [''marketCap'' \<mapsto> 20000000]\<rparr>"

definition ex_company_unlisted :: company where
  "ex_company_unlisted = \<lparr>financials = Inr ex_income, cashflow = Inr ex_cashflow,
                           info = Map.empty\<rparr>"

definition ex_company_negative_cap :: company where
  "ex_company_negative_cap = \<lparr>financials = Inr ex_income, cashflow = Inr ex_cashflow,
                               info = [''marketCap'' \<mapsto> - 5]\<rparr>"

definition ex_income_no_ebit :: statement where
  "ex_income_no_ebit = \<lparr>index = [''Total Revenue''], columns = [''2023'', ''2022''],
                         cell = ex_cell\<rparr>"

definition ex_company_no_ebit :: company where
  "ex_company_no_ebit = \<lparr>financials = Inr ex_income_no_ebit, cashflow = Inr ex_cashflow,
                          info = [''marketCap'' \<mapsto> 20000000]\<rparr>"

definition ex_loss_cell :: "string \<Rightarrow> period \<Rightarrow> real" where
  "ex_loss_cell label col = - ex_cell label col"

definition ex_company_loss :: company where
  "ex_company_loss =
     \<lparr>financials = Inr (ex_income\<lparr>cell := ex_loss_cell\<rparr>),
      cashflow = Inr (ex_cashflow\<lparr>cell := ex_loss_cell\<rparr>),
      info = [''marketCap'' \<mapsto> 20000000]\<rparr>"

definition ex_company_unavailable :: company where
  "ex_company_unavailable = \<lparr>financials = Inl FetchError, cashflow = Inl FetchError,
                              info = Map.empty\<rparr>"

definition ex_response :: response where
  "ex_response =
     \<lparr>status_code = 200,
      json = Inr [''articles'' \<mapsto> Articles
               [\<lparr>title = Some (JString ''Record profit''),
                 description = Some (JString ''Shares jump'')\<rparr>,
                \<lparr>title = Some (JString ''Lawsuit filed''), description = None\<rparr>]]\<rparr>"

definition ex_response_null :: response where
  "ex_response_null =
     \<lparr>status_code = 200,
      json = Inr [''articles'' \<mapsto> Articles
               [\<lparr>title = Some (JString ''Record profit''),
                 description = Some (JString ''Shares jump'')\<rparr>,
                \<lparr>title = Some (JString ''Lawsuit filed''), description = Some JNull\<rparr>]]\<rparr>"

definition ex_polarity :: "string \<Rightarrow> real" where
  "ex_polarity text = (if text = ''Record profit. Shares jump'' then 1 / 2 else - 1 / 4)"

section \<open>Basic facts about the primitives\<close>

lemma bind_err_simps [simp]:
  "bind_err (Inl e) f = Inl e"
  "bind_err (Inr v) f = f v"
  by (simp_all add: bind_err_def)

lemma py_sum_sum_list: "py_sum xs = sum_list xs"
proof -
  have "foldl (+) a xs = a + sum_list xs" for a :: real
    by (induction xs arbitrary: a) simp_all
  then show ?thesis by (simp add: py_sum_def)
qed

lemma np_sum_Finite: "np_sum (map Finite xs) = Finite (sum_list xs)"
proof -
  have "foldl np_add (Finite a) (map Finite xs) = Finite (a + sum_list xs)" for a
    by (induction xs arbitrary: a) (simp_all add: add.assoc)
  then show ?thesis by (simp add: np_sum_def)
qed




lemma np_add_zero: "np_add x (Finite 0) = x"
  by (cases x) simp_all

lemma sequence_err_map:
  "(\<And>x. x \<in> set xs \<Longrightarrow> f x = Inr (g x)) \<Longrightarrow> sequence_err (map f xs) = Inr (map g xs)"
  by (induction xs) simp_all

section \<open>The statement field resolver\<close>

lemma safe_get_skip:
  "\<forall>l\<in>set pre. l \<notin> set (index st) \<Longrightarrow> safe_get st (pre @ rest) col = safe_get st rest col"
  by (induction pre) simp_all

lemma safe_get_none:
  "\<forall>l\<in>set labels. l \<notin> set (index st) \<Longrightarrow> safe_get st labels col = Inr 0"
  by (induction labels) simp_all

lemma safe_get_eq:
  "safe_get st labels col =
     (case first_present st labels of
        None \<Rightarrow> Inr 0
      | Some label \<Rightarrow> if col \<in> set (columns st) then Inr (cell st label col) else Inl KeyError)"
  by (induction labels) (simp_all add: first_present_def loc_def)

lemma safe_get_resolve:
  "col \<in> set (columns st) \<Longrightarrow> safe_get st labels col = Inr (spec_resolveField st labels col)"
  by (simp add: safe_get_eq spec_resolveField_def split: option.split)

lemma ex_cell_values:
  "ex_cell ''EBIT'' ''2023'' = 900000"
  "ex_cell ''Depreciation & Amortization'' ''2023'' = 250000"
  "ex_cell ''Capital Expenditures'' ''2023'' = 100000"
  "ex_cell ''Change in Working Capital'' ''2023'' = 50000"
  by (simp_all add: ex_cell_def)

lemma calculate_fcf_ex_company: "calculate_fcf ex_company = Some 1000000"
  by (simp add: calculate_fcf_def calculate_fcf_try_def ex_company_def ex_income_def
      ex_cashflow_def loc_def ex_cell_values)

lemma calculate_fcf_ex_company_unlisted: "calculate_fcf ex_company_unlisted = Some 1000000"
  by (simp add: calculate_fcf_def calculate_fcf_try_def ex_company_unlisted_def ex_income_def
      ex_cashflow_def loc_def ex_cell_values)

lemma calculate_fcf_ex_company_negative_cap:
  "calculate_fcf ex_company_negative_cap = Some 1000000"
  by (simp add: calculate_fcf_def calculate_fcf_try_def ex_company_negative_cap_def
      ex_income_def ex_cashflow_def loc_def ex_cell_values)

lemma calculate_fcf_ex_company_no_ebit: "calculate_fcf ex_company_no_ebit = Some 100000"
  by (simp add: calculate_fcf_def calculate_fcf_try_def ex_company_no_ebit_def
      ex_income_no_ebit_def ex_cashflow_def loc_def ex_cell_values)

lemma calculate_fcf_ex_company_loss: "calculate_fcf ex_company_loss = Some (- 1000000)"
  by (simp add: calculate_fcf_def calculate_fcf_try_def ex_company_loss_def ex_income_def
      ex_cashflow_def loc_def ex_loss_cell_def ex_cell_values)

lemma calculate_fcf_ex_company_unavailable: "calculate_fcf ex_company_unavailable = None"
  by (simp add: calculate_fcf_def calculate_fcf_try_def ex_company_unavailable_def)

text \<open>
  C6 (as amended). For a period that is a column of the statement, \<open>safe_get\<close> returns
  the value at the first candidate label, in priority order, that is a row label of the
  statement. It returns 0 when no candidate label is a row label, whatever the period.
  When a candidate label is a row label and the period is not a column, it raises
  \<open>KeyError\<close>.
\<close>

theorem safe_get_first_present:
  "(labels = pre @ label # post \<and> (\<forall>l\<in>set pre. l \<notin> set (index st)) \<and>
      label \<in> set (index st) \<and> col \<in> set (columns st)
      \<longrightarrow> safe_get st labels col = Inr (cell st label col))
   \<and> ((\<forall>l\<in>set labels. l \<notin> set (index st)) \<longrightarrow> safe_get st labels col = Inr 0)
   \<and> (labels = pre @ label # post \<and> (\<forall>l\<in>set pre. l \<notin> set (index st)) \<and>
      label \<in> set (index st) \<and> col \<notin> set (columns st)
      \<longrightarrow> safe_get st labels col = Inl KeyError)"
  by (auto simp: safe_get_skip safe_get_none loc_def)

theorem safe_get_first_present_witness:
  "safe_get ex_cashflow [''Depreciation'', ''Depreciation & Amortization''] ''2023''
     = Inr 250000
   \<and> safe_get ex_cashflow [''Capital expenditure''] ''2023'' = Inr 0
   \<and> safe_get ex_cashflow [''Depreciation'', ''Depreciation & Amortization''] ''2021''
     = Inl KeyError"
proof -
  have "safe_get ex_cashflow [''Depreciation'', ''Depreciation & Amortization''] ''2023''
          = Inr (cell ex_cashflow ''Depreciation & Amortization'' ''2023'')"
    using safe_get_first_present [of "[''Depreciation'', ''Depreciation & Amortization'']"
        "[''Depreciation'']" "''Depreciation & Amortization''" "[]" ex_cashflow "''2023''"]
    by (simp add: ex_cashflow_def)
  moreover have "safe_get ex_cashflow [''Capital expenditure''] ''2023'' = Inr 0"
    using safe_get_first_present [of "[''Capital expenditure'']" "[]" "''x''" "[]"
        ex_cashflow "''2023''"]
    by (simp add: ex_cashflow_def)
  moreover have
    "safe_get ex_cashflow [''Depreciation'', ''Depreciation & Amortization''] ''2021''
       = Inl KeyError"
    using safe_get_first_present [of "[''Depreciation'', ''Depreciation & Amortization'']"
        "[''Depreciation'']" "''Depreciation & Amortization''" "[]" ex_cashflow "''2021''"]
    by (simp add: ex_cashflow_def)
  ultimately show ?thesis
    by (simp add: ex_cashflow_def ex_cell_values)
qed

theorem safe_get_raises_counterexample:
  "''EBIT'' \<in> set (index ex_income) \<and>
   safe_get ex_income [''Operating Income'', ''EBIT''] ''2021'' = Inl KeyError"
  by (simp add: ex_income_def loc_def)

section \<open>The free-cash-flow estimator\<close>

lemma calculate_fcf_Some_fetched:
  assumes "calculate_fcf c = Some fcf"
  shows "\<exists>income_stmt cashflow_stmt latest_year older.
           financials c = Inr income_stmt \<and> cashflow c = Inr cashflow_stmt \<and>
           columns income_stmt = latest_year # older"
proof (cases "financials c")
  case (Inl e)
  then show ?thesis
    using assms by (simp add: calculate_fcf_def calculate_fcf_try_def)
next
  case inc: (Inr income_stmt)
  show ?thesis
  proof (cases "cashflow c")
    case (Inl e)
    then show ?thesis
      using assms inc by (simp add: calculate_fcf_def calculate_fcf_try_def)
  next
    case cf: (Inr cashflow_stmt)
    show ?thesis
    proof (cases "columns income_stmt")
      case Nil
      then show ?thesis
        using assms inc cf by (simp add: calculate_fcf_def calculate_fcf_try_def)
    next
      case (Cons latest_year older)
      then show ?thesis
        using inc cf by simp
    qed
  qed
qed

lemma calculate_fcf_resolved:
  assumes "financials c = Inr income_stmt" "cashflow c = Inr cashflow_stmt"
    and "columns income_stmt = latest_year # older"
    and "latest_year \<in> set (columns cashflow_stmt)"
  shows "calculate_fcf c = Some (
      spec_resolveField income_stmt [''Operating Income'', ''EBIT''] latest_year
    + spec_resolveField cashflow_stmt
        [''Depreciation'', ''Depreciation & Amortization''] latest_year
    - spec_resolveField cashflow_stmt
        [''Capital Expenditures'', ''Capital expenditure''] latest_year
    - spec_resolveField cashflow_stmt
        [''Change in Working Capital'', ''Changes in working capital''] latest_year)"
proof -
  have "latest_year \<in> set (columns income_stmt)"
    using assms(3) by simp
  then have "safe_get income_stmt labels latest_year
               = Inr (spec_resolveField income_stmt labels latest_year)" for labels
    by (rule safe_get_resolve)
  moreover have "safe_get cashflow_stmt labels latest_year
               = Inr (spec_resolveField cashflow_stmt labels latest_year)" for labels
    using assms(4) by (rule safe_get_resolve)
  ultimately show ?thesis
    using assms(1-3) by (simp add: calculate_fcf_def calculate_fcf_try_def del: safe_get.simps)
qed

lemma spec_resolveField_absent:
  assumes "\<forall>l\<in>set labels. l \<notin> set (index st)"
  shows "spec_resolveField st labels col = 0"
proof -
  have "first_present st labels = None"
    unfolding first_present_def find_None_iff using assms by blast
  then show ?thesis
    by (simp add: spec_resolveField_def)
qed

text \<open>
  C5 (as amended). \<open>calculate_fcf\<close> returns EBIT + Depreciation - CapEx - change in
  working capital for the latest reporting period, the first column of the income
  statement, each component resolved with its documented synonym list. The computation
  proceeds only when both statements were fetched and the income statement has a first
  column, and it does proceed whenever that period is also a column of the cash-flow
  statement. Every absent field, EBIT included, counts as zero.
\<close>

theorem calculate_fcf_formula:
  "(financials c = Inr income_stmt \<and> cashflow c = Inr cashflow_stmt \<and>
      columns income_stmt = latest_year # older \<and>
      latest_year \<in> set (columns cashflow_stmt)
    \<longrightarrow> calculate_fcf c = Some (
          spec_resolveField income_stmt [''Operating Income'', ''EBIT''] latest_year
        + spec_resolveField cashflow_stmt
            [''Depreciation'', ''Depreciation & Amortization''] latest_year
        - spec_resolveField cashflow_stmt
            [''Capital Expenditures'', ''Capital expenditure''] latest_year
        - spec_resolveField cashflow_stmt
            [''Change in Working Capital'', ''Changes in working capital''] latest_year))
   \<and> (calculate_fcf c = Some fcf
    \<longrightarrow> (\<exists>income_stmt cashflow_stmt latest_year older.
           financials c = Inr income_stmt \<and> cashflow c = Inr cashflow_stmt \<and>
           columns income_stmt = latest_year # older))
   \<and> ((\<forall>l\<in>set labels. l \<notin> set (index st)) \<longrightarrow> spec_resolveField st labels col = 0)"
  using calculate_fcf_resolved calculate_fcf_Some_fetched spec_resolveField_absent
  by blast

theorem calculate_fcf_formula_witness:
  "financials ex_company_no_ebit = Inr ex_income_no_ebit \<and>
   cashflow ex_company_no_ebit = Inr ex_cashflow \<and>
   columns ex_income_no_ebit = ''2023'' # [''2022''] \<and>
   ''2023'' \<in> set (columns ex_cashflow) \<and>
   ''Operating Income'' \<notin> set (index ex_income_no_ebit) \<and>
   ''EBIT'' \<notin> set (index ex_income_no_ebit) \<and>
   spec_resolveField ex_income_no_ebit [''Operating Income'', ''EBIT''] ''2023'' = 0 \<and>
   calculate_fcf ex_company_no_ebit = Some (0 + 250000 - 100000 - 50000) \<and>
   (\<exists>income_stmt cashflow_stmt latest_year older.
      financials ex_company_no_ebit = Inr income_stmt \<and>
      cashflow ex_company_no_ebit = Inr cashflow_stmt \<and>
      columns income_stmt = latest_year # older)"
proof -
  have h: "financials ex_company_no_ebit = Inr ex_income_no_ebit \<and>
      cashflow ex_company_no_ebit = Inr ex_cashflow \<and>
      columns ex_income_no_ebit = ''2023'' # [''2022''] \<and>
      ''2023'' \<in> set (columns ex_cashflow)"
    by (simp add: ex_company_no_ebit_def ex_income_no_ebit_def ex_cashflow_def)
  have a: "\<forall>l\<in>set [''Operating Income'', ''EBIT'']. l \<notin> set (index ex_income_no_ebit)"
    by (simp add: ex_income_no_ebit_def)
  have r: "spec_resolveField ex_cashflow
             [''Depreciation'', ''Depreciation & Amortization''] ''2023'' = 250000"
     "spec_resolveField ex_cashflow
             [''Capital Expenditures'', ''Capital expenditure''] ''2023'' = 100000"
     "spec_resolveField ex_cashflow
             [''Change in Working Capital'', ''Changes in working capital''] ''2023'' = 50000"
    by (simp_all add: spec_resolveField_def first_present_def ex_cashflow_def ex_cell_values)
  note t = calculate_fcf_formula [of ex_company_no_ebit ex_income_no_ebit ex_cashflow
      "''2023''" "[''2022'']" 100000 "[''Operating Income'', ''EBIT'']" ex_income_no_ebit
      "''2023''"]
  from t h a have "spec_resolveField ex_income_no_ebit [''Operating Income'', ''EBIT''] ''2023'' = 0"
    by blast
  moreover from t h have "calculate_fcf ex_company_no_ebit = Some (
          spec_resolveField ex_income_no_ebit [''Operating Income'', ''EBIT''] ''2023''
        + spec_resolveField ex_cashflow
            [''Depreciation'', ''Depreciation & Amortization''] ''2023''
        - spec_resolveField ex_cashflow
            [''Capital Expenditures'', ''Capital expenditure''] ''2023''
        - spec_resolveField ex_cashflow
            [''Change in Working Capital'', ''Changes in working capital''] ''2023'')"
    by blast
  ultimately have fcf: "calculate_fcf ex_company_no_ebit = Some 100000"
    and ebit: "spec_resolveField ex_income_no_ebit [''Operating Income'', ''EBIT''] ''2023'' = 0"
    using r by simp_all
  from t fcf have "\<exists>income_stmt cashflow_stmt latest_year older.
      financials ex_company_no_ebit = Inr income_stmt \<and>
      cashflow ex_company_no_ebit = Inr cashflow_stmt \<and>
      columns income_stmt = latest_year # older"
    by blast
  then show ?thesis
    using h a fcf ebit by simp
qed

theorem calculate_fcf_without_ebit_counterexample:
  "''Operating Income'' \<notin> set (index ex_income_no_ebit) \<and>
   ''EBIT'' \<notin> set (index ex_income_no_ebit) \<and>
   financials ex_company_no_ebit = Inr ex_income_no_ebit \<and>
   calculate_fcf ex_company_no_ebit = Some 100000"
  by (simp add: calculate_fcf_ex_company_no_ebit)
     (simp add: ex_income_no_ebit_def ex_company_no_ebit_def)

section \<open>The DCF valuator\<close>

lemma future_fcfs_of_eq:
  "future_fcfs_of fcf g years = map (\<lambda>k. spec_futureFCF fcf g (Suc k)) [0..<nat years]"
proof (rule nth_equalityI)
  show "length (future_fcfs_of fcf g years) =
        length (map (\<lambda>k. spec_futureFCF fcf g (Suc k)) [0..<nat years])"
    by (simp add: future_fcfs_of_def)
next
  fix k
  assume "k < length (future_fcfs_of fcf g years)"
  then have k: "k < nat years"
    by (simp add: future_fcfs_of_def)
  then have "[1..years] ! k = 1 + int k"
    by (simp add: nth_upto)
  moreover have "nat (1 + int k) = Suc k"
    by simp
  ultimately show "future_fcfs_of fcf g years ! k =
        map (\<lambda>k. spec_futureFCF fcf g (Suc k)) [0..<nat years] ! k"
    using k by (simp add: future_fcfs_of_def spec_futureFCF_def)
qed

lemma future_fcfs_of_empty: "years \<le> 0 \<Longrightarrow> future_fcfs_of fcf g years = []"
  by (simp add: future_fcfs_of_eq)

lemma discounted_fcfs_of_eq:
  "discounted_fcfs_of fs r =
     map (\<lambda>k. np_div (Finite (fs ! k)) ((1 + r) ^ Suc k)) [0..<length fs]"
  unfolding discounted_fcfs_of_def
  by (rule nth_equalityI) (simp_all add: nth_enumerate_eq)

lemma discounted_future_fcfs_div:
  "discounted_fcfs_of (future_fcfs_of fcf g years) r =
     map (\<lambda>k. np_div (Finite (spec_futureFCF fcf g (Suc k))) ((1 + r) ^ Suc k))
         [0..<nat years]"
  unfolding discounted_fcfs_of_eq
  by (simp add: future_fcfs_of_eq)

lemma discounted_future_fcfs:
  assumes "1 + r \<noteq> 0"
  shows "discounted_fcfs_of (future_fcfs_of fcf g years) r =
         map (\<lambda>k. Finite (spec_discountedFCF fcf r g (Suc k))) [0..<nat years]"
  unfolding discounted_future_fcfs_div
  using assms by (simp add: spec_discountedFCF_def)

lemma last_future_fcfs:
  assumes "1 \<le> years"
  shows "future_fcfs_of fcf g years \<noteq> []"
    and "last (future_fcfs_of fcf g years) = spec_futureFCF fcf g (nat years)"
proof -
  let ?n = "nat years"
  let ?fs = "future_fcfs_of fcf g years"
  have n: "0 < ?n" using assms by simp
  have len: "length ?fs = ?n" by (simp add: future_fcfs_of_eq)
  show ne: "?fs \<noteq> []" using n len by auto
  have "last ?fs = ?fs ! (?n - 1)"
    using ne len by (simp add: last_conv_nth)
  also have "\<dots> = spec_futureFCF fcf g (Suc (?n - 1))"
    using n by (simp add: future_fcfs_of_eq)
  also have "Suc (?n - 1) = ?n"
    using n by simp
  finally show "last ?fs = spec_futureFCF fcf g ?n" .
qed

lemma terminal_value_future_fcfs:
  assumes "1 \<le> years"
  shows "terminal_value_of (future_fcfs_of fcf g years) r g =
         Inr (np_div (Finite (spec_futureFCF fcf g (nat years) * (1 + g))) (r - g))"
  using last_future_fcfs [OF assms, of fcf g]
  by (simp add: terminal_value_of_def last_item_def)

lemma np_sum_discounted:
  "np_sum (map (\<lambda>k. Finite (spec_discountedFCF fcf r g (Suc k))) [0..<n]) =
   Finite (\<Sum>i = 1..n. spec_discountedFCF fcf r g i)"
proof -
  have "np_sum (map (\<lambda>k. Finite (spec_discountedFCF fcf r g (Suc k))) [0..<n]) =
        np_sum (map Finite (map (\<lambda>k. spec_discountedFCF fcf r g (Suc k)) [0..<n]))"
    by (simp add: comp_def)
  also have "\<dots> = Finite (sum_list (map (\<lambda>k. spec_discountedFCF fcf r g (Suc k)) [0..<n]))"
    by (rule np_sum_Finite)
  also have "sum_list (map (\<lambda>k. spec_discountedFCF fcf r g (Suc k)) [0..<n]) =
             (\<Sum>i = 1..n. spec_discountedFCF fcf r g i)"
    by (simp add: sum_list_sum_nth atLeast0LessThan sum.atLeast1_atMost_eq)
  finally show ?thesis .
qed

text \<open>With a positive free cash flow and a horizon of at least one year nothing raises.\<close>

lemma dcf_total:
  assumes "calculate_fcf c = Some fcf" "0 < fcf" "1 \<le> years"
  shows "discounted_cash_flow_analysis c years r g =
     Inr (Some
       (let discounted_fcfs = discounted_fcfs_of (future_fcfs_of fcf g years) r;
            discounted_terminal_value =
              np_div (np_div (Finite (spec_futureFCF fcf g (nat years) * (1 + g))) (r - g))
                     ((1 + r) ^ nat years);
            intrinsic_value = np_add (np_sum discounted_fcfs) discounted_terminal_value;
            market_cap = dict_get (info c) ''marketCap'' 0
        in \<lparr>intrinsicValue = intrinsic_value, marketCap = market_cap,
            upsidePercent =
              (if market_cap > 0
               then np_mul (np_div (np_sub intrinsic_value market_cap) market_cap) 100
               else Finite 0),
            perYearDiscountedFCF = discounted_fcfs,
            discountedTerminalValue = discounted_terminal_value\<rparr>))"
  unfolding discounted_cash_flow_analysis_def
  using assms(1,2) by (simp add: terminal_value_future_fcfs [OF assms(3)] Let_def)

lemma dcf_returns:
  assumes "calculate_fcf c = Some fcf" "0 < fcf" "1 \<le> years" "1 + r \<noteq> 0" "r \<noteq> g"
  shows "discounted_cash_flow_analysis c years r g =
     Inr (Some \<lparr>intrinsicValue = Finite (spec_intrinsicValue fcf (nat years) r g),
                 marketCap = dict_get (info c) ''marketCap'' 0,
                 upsidePercent =
                   Finite (spec_upside (spec_intrinsicValue fcf (nat years) r g)
                                       (dict_get (info c) ''marketCap'' 0)),
                 perYearDiscountedFCF =
                   map (\<lambda>k. Finite (spec_discountedFCF fcf r g (Suc k))) [0..<nat years],
                 discountedTerminalValue = Finite (spec_discountedTV fcf (nat years) r g)\<rparr>)"
proof -
  have p: "(1 + r) ^ nat years \<noteq> 0"
    using assms(4) by simp
  have dtv: "np_div (np_div (Finite (spec_futureFCF fcf g (nat years) * (1 + g))) (r - g))
                    ((1 + r) ^ nat years) = Finite (spec_discountedTV fcf (nat years) r g)"
    using assms(5) p by (simp add: spec_discountedTV_def spec_TV_def)
  show ?thesis
    unfolding dcf_total [OF assms(1-3)] Let_def dtv discounted_future_fcfs [OF assms(4)]
      np_sum_discounted
    by (simp add: spec_intrinsicValue_def spec_upside_def)
qed

lemma dcf_no_data:
  "calculate_fcf c = None \<Longrightarrow> discounted_cash_flow_analysis c years r g = Inr None"
  by (simp add: discounted_cash_flow_analysis_def)

lemma dcf_not_positive:
  "calculate_fcf c = Some fcf \<Longrightarrow> fcf \<le> 0 \<Longrightarrow>
   discounted_cash_flow_analysis c years r g = Inr None"
  by (simp add: discounted_cash_flow_analysis_def)

lemma dcf_no_horizon:
  assumes "calculate_fcf c = Some fcf" "0 < fcf" "years \<le> 0"
  shows "discounted_cash_flow_analysis c years r g = Inl IndexError"
  using assms
  by (simp add: discounted_cash_flow_analysis_def future_fcfs_of_empty
      terminal_value_of_def last_item_def)


lemma upt_5: "[0..<nat 5] = [0, 1, 2, 3, 4]"
  by (simp add: upt_rec)

lemma atLeastAtMost_1_5: "{1..5::nat} = {1, 2, 3, 4, 5}"
  by auto

lemma dcf_ex_company:
  "discounted_cash_flow_analysis ex_company 5 (1 / 10) (1 / 20) =
     Inr (Some \<lparr>intrinsicValue = Finite 21000000, marketCap = 20000000,
                 upsidePercent = Finite 5,
                 perYearDiscountedFCF =
                   [Finite (10500000 / 11), Finite (110250000 / 121),
                    Finite (1157625000 / 1331), Finite (12155062500 / 14641),
                    Finite (127628156250 / 161051)],
                 discountedTerminalValue = Finite (2680191281250 / 161051)\<rparr>)"
proof -
  have "dict_get (info ex_company) ''marketCap'' 0 = 20000000"
    by (simp add: dict_get_def ex_company_def)
  then show ?thesis
    using upt_5 atLeastAtMost_1_5
    unfolding dcf_returns
      [of ex_company 1000000 5 "1 / 10" "1 / 20", OF calculate_fcf_ex_company, simplified]
    by (simp add: spec_intrinsicValue_def spec_discountedTV_def spec_TV_def
        spec_discountedFCF_def spec_futureFCF_def spec_upside_def power_divide)
qed

lemma dcf_ex_company_unlisted:
  "discounted_cash_flow_analysis ex_company_unlisted 5 (1 / 10) (1 / 20) =
     Inr (Some \<lparr>intrinsicValue = Finite 21000000, marketCap = 0,
                 upsidePercent = Finite 0,
                 perYearDiscountedFCF =
                   [Finite (10500000 / 11), Finite (110250000 / 121),
                    Finite (1157625000 / 1331), Finite (12155062500 / 14641),
                    Finite (127628156250 / 161051)],
                 discountedTerminalValue = Finite (2680191281250 / 161051)\<rparr>)"
proof -
  have "dict_get (info ex_company_unlisted) ''marketCap'' 0 = (0::real)"
    by (simp add: dict_get_def ex_company_unlisted_def)
  then show ?thesis
    using upt_5 atLeastAtMost_1_5
    unfolding dcf_returns [of ex_company_unlisted 1000000 5 "1 / 10" "1 / 20",
        OF calculate_fcf_ex_company_unlisted, simplified]
    by (simp add: spec_intrinsicValue_def spec_discountedTV_def spec_TV_def
        spec_discountedFCF_def spec_futureFCF_def spec_upside_def power_divide)
qed

lemma dcf_ex_company_negative_cap:
  "discounted_cash_flow_analysis ex_company_negative_cap 5 (1 / 10) (1 / 20) =
     Inr (Some \<lparr>intrinsicValue = Finite 21000000, marketCap = - 5,
                 upsidePercent = Finite 0,
                 perYearDiscountedFCF =
                   [Finite (10500000 / 11), Finite (110250000 / 121),
                    Finite (1157625000 / 1331), Finite (12155062500 / 14641),
                    Finite (127628156250 / 161051)],
                 discountedTerminalValue = Finite (2680191281250 / 161051)\<rparr>)"
proof -
  have "dict_get (info ex_company_negative_cap) ''marketCap'' 0 = (- 5::real)"
    by (simp add: dict_get_def ex_company_negative_cap_def)
  then show ?thesis
    using upt_5 atLeastAtMost_1_5
    unfolding dcf_returns [of ex_company_negative_cap 1000000 5 "1 / 10" "1 / 20",
        OF calculate_fcf_ex_company_negative_cap, simplified]
    by (simp add: spec_intrinsicValue_def spec_discountedTV_def spec_TV_def
        spec_discountedFCF_def spec_futureFCF_def spec_upside_def power_divide)
qed

section \<open>Absent results and the upside percentage\<close>

text \<open>
  C4. When the free cash flow is unavailable or not strictly positive, the valuation
  returns \<open>None\<close> whatever the horizon and the rates are, also where computing the
  discounted cash flows would raise: none is computed.
\<close>

theorem dcf_absent_without_positive_fcf:
  "calculate_fcf c = None \<or> (\<exists>fcf. calculate_fcf c = Some fcf \<and> fcf \<le> 0) \<Longrightarrow>
   discounted_cash_flow_analysis c years discount_rate growth_rate = Inr None"
  using dcf_no_data dcf_not_positive by blast

theorem dcf_absent_without_positive_fcf_witness:
  "calculate_fcf ex_company_loss = Some (- 1000000) \<and>
   discounted_cash_flow_analysis ex_company_loss 5 0.10 0.05 = Inr None \<and>
   discounted_cash_flow_analysis ex_company_loss 0 0.10 0.10 = Inr None \<and>
   calculate_fcf ex_company_unavailable = None \<and>
   discounted_cash_flow_analysis ex_company_unavailable 5 0.10 0.05 = Inr None"
  using dcf_absent_without_positive_fcf [of ex_company_loss 5 "0.10" "0.05"]
    dcf_absent_without_positive_fcf [of ex_company_loss 0 "0.10" "0.10"]
    dcf_absent_without_positive_fcf [of ex_company_unavailable 5 "0.10" "0.05"]
  by (simp add: calculate_fcf_ex_company_loss calculate_fcf_ex_company_unavailable)

text \<open>
  C7. For a strictly positive FCF and a horizon of at least one year the valuation
  returns a result, whatever the rates and the market capitalisation are. The market cap
  of the result is the \<open>marketCap\<close> entry of the company's info (0 when there is
  none). Its upside percentage is (intrinsic value - market cap) / market cap * 100 when
  the market cap is strictly positive, and exactly 0 otherwise.
\<close>

theorem dcf_upside_percentage:
  assumes "calculate_fcf c = Some fcf" and "0 < fcf" and "1 \<le> years"
  shows "\<exists>res. discounted_cash_flow_analysis c years discount_rate growth_rate
                 = Inr (Some res) \<and>
           marketCap res = dict_get (info c) ''marketCap'' 0 \<and>
           (0 < marketCap res \<longrightarrow>
              upsidePercent res =
                np_mul (np_div (np_sub (intrinsicValue res) (marketCap res)) (marketCap res))
                       100 \<and>
              (\<forall>iv. intrinsicValue res = Finite iv \<longrightarrow>
                 upsidePercent res = Finite ((iv - marketCap res) / marketCap res * 100))) \<and>
           (\<not> 0 < marketCap res \<longrightarrow> upsidePercent res = Finite 0)"
  unfolding dcf_total [OF assms] Let_def
  by auto

theorem dcf_upside_percentage_witness:
  "calculate_fcf ex_company = Some 1000000 \<and>
   (\<exists>res. discounted_cash_flow_analysis ex_company 5 0.10 0.05 = Inr (Some res) \<and>
      intrinsicValue res = Finite 21000000 \<and> marketCap res = 20000000 \<and>
      upsidePercent res = Finite ((21000000 - 20000000) / 20000000 * 100)) \<and>
   (\<exists>res. discounted_cash_flow_analysis ex_company_unlisted 5 0.10 0.05 = Inr (Some res) \<and>
      marketCap res = 0 \<and> upsidePercent res = Finite 0) \<and>
   (\<exists>res. discounted_cash_flow_analysis ex_company_negative_cap 5 0.10 0.05
             = Inr (Some res) \<and>
      marketCap res = - 5 \<and> upsidePercent res = Finite 0)"
proof -
  have h: "(0::real) < 1000000" "(1::int) \<le> 5"
    by simp_all
  have "\<exists>res. discounted_cash_flow_analysis ex_company 5 0.10 0.05 = Inr (Some res) \<and>
      intrinsicValue res = Finite 21000000 \<and> marketCap res = 20000000 \<and>
      upsidePercent res = Finite ((21000000 - 20000000) / 20000000 * 100)"
    using dcf_upside_percentage [OF calculate_fcf_ex_company h, of "0.10" "0.05"]
      dcf_ex_company
    by auto
  moreover have
    "\<exists>res. discounted_cash_flow_analysis ex_company_unlisted 5 0.10 0.05 = Inr (Some res) \<and>
      marketCap res = 0 \<and> upsidePercent res = Finite 0"
    using dcf_upside_percentage [OF calculate_fcf_ex_company_unlisted h, of "0.10" "0.05"]
    by (auto simp: dict_get_def ex_company_unlisted_def)
  moreover have
    "\<exists>res. discounted_cash_flow_analysis ex_company_negative_cap 5 0.10 0.05
             = Inr (Some res) \<and>
      marketCap res = - 5 \<and> upsidePercent res = Finite 0"
    using dcf_upside_percentage [OF calculate_fcf_ex_company_negative_cap h, of "0.10" "0.05"]
    by (auto simp: dict_get_def ex_company_negative_cap_def)
  ultimately show ?thesis
    using calculate_fcf_ex_company by blast
qed

section \<open>Sentiment and evaluation\<close>

lemma evaluate_security_Some:
  assumes "evaluate_security api_key request polarity c = Inr (Some ev)"
  shows "\<exists>res. discounted_cash_flow_analysis c 5 (1 / 10) (1 / 20) = Inr (Some res) \<and>
           valuation ev = res \<and>
           sentiment_score ev = analyze_sentiment polarity (get_security_news api_key request) \<and>
           adjusted_upside ev = np_add (upsidePercent res) (Finite (sentiment_score ev * 50))"
proof (cases "discounted_cash_flow_analysis c 5 (1 / 10) (1 / 20)")
  case (Inl e)
  then show ?thesis
    using assms by (simp add: evaluate_security_def)
next
  case (Inr dcf_result)
  show ?thesis
  proof (cases dcf_result)
    case None
    then show ?thesis
      using assms Inr by (simp add: evaluate_security_def)
  next
    case (Some res)
    then show ?thesis
      using assms Inr by (auto simp: evaluate_security_def Let_def)
  qed
qed

lemma evaluate_security_report:
  "discounted_cash_flow_analysis c 5 (1 / 10) (1 / 20) = Inr (Some res) \<Longrightarrow>
   evaluate_security api_key request polarity c =
     Inr (Some \<lparr>valuation = res,
                 sentiment_score = analyze_sentiment polarity (get_security_news api_key request),
                 adjusted_upside = np_add (upsidePercent res)
                   (Finite (analyze_sentiment polarity (get_security_news api_key request) * 50))\<rparr>)"
  by (simp add: evaluate_security_def Let_def)

lemma evaluate_security_early_exit:
  "discounted_cash_flow_analysis c 5 (1 / 10) (1 / 20) = Inr None \<Longrightarrow>
   evaluate_security api_key request polarity c = Inr None"
  by (simp add: evaluate_security_def)

lemma evaluate_security_ex_company:
  "evaluate_security [] request ex_polarity ex_company =
     Inr (Some \<lparr>valuation =
                   \<lparr>intrinsicValue = Finite 21000000, marketCap = 20000000,
                    upsidePercent = Finite 5,
                    perYearDiscountedFCF =
                      [Finite (10500000 / 11), Finite (110250000 / 121),
                       Finite (1157625000 / 1331), Finite (12155062500 / 14641),
                       Finite (127628156250 / 161051)],
                    discountedTerminalValue = Finite (2680191281250 / 161051)\<rparr>,
                 sentiment_score = 0, adjusted_upside = Finite 5\<rparr>)"
  by (simp add: evaluate_security_def dcf_ex_company get_security_news_def
      analyze_sentiment_def)

lemma get_security_news_ex_response:
  "get_security_news ''key'' (Inr ex_response) =
     [''Record profit. Shares jump'', ''Lawsuit filed. '']"
  by (simp add: get_security_news_def ex_response_def dict_get_def first_five_def
      article_text_def)

lemma get_security_news_ex_response_null:
  "get_security_news ''key'' (Inr ex_response_null) = []"
  by (simp add: get_security_news_def ex_response_null_def dict_get_def first_five_def
      article_text_def)

text \<open>
  C8. With no article the sentiment score is exactly 0, and the adjusted upside that
  \<open>evaluate_security\<close> reports, upside + sentiment * 50, is then the raw upside. For
  a non-empty article list the score is the sum of the articles' polarities divided by
  their number.
\<close>

theorem analyze_sentiment_mean:
  "analyze_sentiment polarity [] = 0 \<and>
   (news_list \<noteq> [] \<longrightarrow>
      analyze_sentiment polarity news_list =
        (\<Sum>article\<leftarrow>news_list. polarity article) / real (length news_list)) \<and>
   (evaluate_security api_key request polarity c = Inr (Some ev) \<longrightarrow>
      sentiment_score ev = analyze_sentiment polarity (get_security_news api_key request) \<and>
      adjusted_upside ev =
        np_add (upsidePercent (valuation ev)) (Finite (sentiment_score ev * 50))) \<and>
   (evaluate_security api_key request polarity c = Inr (Some ev) \<and>
    get_security_news api_key request = [] \<longrightarrow>
      sentiment_score ev = 0 \<and> adjusted_upside ev = upsidePercent (valuation ev)) \<and>
   (discounted_cash_flow_analysis c 5 0.10 0.05 = Inr (Some res) \<longrightarrow>
      evaluate_security api_key request polarity c =
        Inr (Some \<lparr>valuation = res,
                    sentiment_score =
                      analyze_sentiment polarity (get_security_news api_key request),
                    adjusted_upside = np_add (upsidePercent res)
                      (Finite (analyze_sentiment polarity
                                 (get_security_news api_key request) * 50))\<rparr>))"
proof -
  have "analyze_sentiment polarity [] = 0"
    by (simp add: analyze_sentiment_def)
  moreover have "analyze_sentiment polarity news_list =
        (\<Sum>article\<leftarrow>news_list. polarity article) / real (length news_list)"
    if "news_list \<noteq> []"
    using that by (simp add: analyze_sentiment_def py_sum_sum_list)
  moreover have e: "sentiment_score ev =
        analyze_sentiment polarity (get_security_news api_key request) \<and>
      adjusted_upside ev =
        np_add (upsidePercent (valuation ev)) (Finite (sentiment_score ev * 50))"
    if "evaluate_security api_key request polarity c = Inr (Some ev)"
    using evaluate_security_Some [OF that] by auto
  moreover have "sentiment_score ev = 0 \<and> adjusted_upside ev = upsidePercent (valuation ev)"
    if "evaluate_security api_key request polarity c = Inr (Some ev)"
      and "get_security_news api_key request = []"
    using e [OF that(1)] that(2) by (simp add: analyze_sentiment_def np_add_zero)
  moreover have "evaluate_security api_key request polarity c =
        Inr (Some \<lparr>valuation = res,
                    sentiment_score =
                      analyze_sentiment polarity (get_security_news api_key request),
                    adjusted_upside = np_add (upsidePercent res)
                      (Finite (analyze_sentiment polarity
                                 (get_security_news api_key request) * 50))\<rparr>)"
    if "discounted_cash_flow_analysis c 5 0.10 0.05 = Inr (Some res)"
    using that evaluate_security_report [of c res api_key request polarity] by simp
  ultimately show ?thesis
    by blast
qed

theorem analyze_sentiment_mean_witness:
  "analyze_sentiment ex_polarity [] = 0 \<and>
   get_security_news ''key'' (Inr ex_response) =
     [''Record profit. Shares jump'', ''Lawsuit filed. ''] \<and>
   analyze_sentiment ex_polarity (get_security_news ''key'' (Inr ex_response))
     = (1 / 2 + - 1 / 4) / 2 \<and>
   get_security_news [] (Inr ex_response) = [] \<and>
   (\<exists>ev. evaluate_security [] (Inr ex_response) ex_polarity ex_company = Inr (Some ev) \<and>
         sentiment_score ev = 0 \<and> adjusted_upside ev = Finite 5 \<and>
         upsidePercent (valuation ev) = Finite 5) \<and>
   (\<exists>res. discounted_cash_flow_analysis ex_company 5 0.10 0.05 = Inr (Some res) \<and>
      evaluate_security ''key'' (Inr ex_response) ex_polarity ex_company =
        Inr (Some \<lparr>valuation = res, sentiment_score = 1 / 8,
                    adjusted_upside = Finite (5 + 1 / 8 * 50)\<rparr>))"
proof -
  note t = analyze_sentiment_mean [of ex_polarity
      "[''Record profit. Shares jump'', ''Lawsuit filed. '']" "[]" "Inr ex_response"
      ex_company]
  have n: "get_security_news [] (Inr ex_response) = []"
    by (simp add: get_security_news_def)
  obtain ev where ev: "evaluate_security [] (Inr ex_response) ex_polarity ex_company
      = Inr (Some ev)" "upsidePercent (valuation ev) = Finite 5"
    by (simp add: evaluate_security_ex_company)
  from t [of ev] ev n have "sentiment_score ev = 0 \<and> adjusted_upside ev = Finite 5"
    by simp
  moreover from t [of ev] have m:
    "analyze_sentiment ex_polarity [''Record profit. Shares jump'', ''Lawsuit filed. '']
     = (1 / 2 + - 1 / 4) / 2"
    by (simp add: ex_polarity_def)
  moreover from t [of ev] have "analyze_sentiment ex_polarity [] = 0"
    by simp
  moreover have
    "\<exists>res. discounted_cash_flow_analysis ex_company 5 0.10 0.05 = Inr (Some res) \<and>
      evaluate_security ''key'' (Inr ex_response) ex_polarity ex_company =
        Inr (Some \<lparr>valuation = res, sentiment_score = 1 / 8,
                    adjusted_upside = Finite (5 + 1 / 8 * 50)\<rparr>)"
    using analyze_sentiment_mean [of ex_polarity "[]" "''key''" "Inr ex_response" ex_company
        _ "\<lparr>intrinsicValue = Finite 21000000, marketCap = 20000000,
            upsidePercent = Finite 5,
            perYearDiscountedFCF =
              [Finite (10500000 / 11), Finite (110250000 / 121),
               Finite (1157625000 / 1331), Finite (12155062500 / 14641),
               Finite (127628156250 / 161051)],
            discountedTerminalValue = Finite (2680191281250 / 161051)\<rparr>"]
      dcf_ex_company m
    by (simp add: get_security_news_ex_response)
  ultimately show ?thesis
    using ev n by (auto simp: get_security_news_ex_response)
qed

text \<open>
  C10. The valuation returns the same \<open>None\<close> when the free cash flow is unavailable
  and when it is not strictly positive, so its result does not tell the two failures
  apart, and \<open>evaluate_security\<close> leaves through the same early exit in both cases.
\<close>

theorem dcf_absent_indistinguishable:
  "calculate_fcf c1 = None \<Longrightarrow> calculate_fcf c2 = Some fcf \<Longrightarrow> fcf \<le> 0 \<Longrightarrow>
   discounted_cash_flow_analysis c1 years discount_rate growth_rate = Inr None \<and>
   discounted_cash_flow_analysis c2 years discount_rate growth_rate =
     discounted_cash_flow_analysis c1 years discount_rate growth_rate \<and>
   evaluate_security api_key request polarity c1 = Inr None \<and>
   evaluate_security api_key request polarity c2 =
     evaluate_security api_key request polarity c1"
  by (simp add: dcf_no_data dcf_not_positive evaluate_security_early_exit)

theorem dcf_absent_indistinguishable_witness:
  "calculate_fcf ex_company_unavailable = None \<and>
   calculate_fcf ex_company_loss = Some (- 1000000) \<and>
   discounted_cash_flow_analysis ex_company_unavailable 5 0.10 0.05 = Inr None \<and>
   discounted_cash_flow_analysis ex_company_loss 5 0.10 0.05 = Inr None \<and>
   evaluate_security [] (Inl FetchError) ex_polarity ex_company_unavailable = Inr None \<and>
   evaluate_security [] (Inl FetchError) ex_polarity ex_company_loss = Inr None"
  using dcf_absent_indistinguishable [OF calculate_fcf_ex_company_unavailable
      calculate_fcf_ex_company_loss, of 5 "0.10" "0.05" "[]" "Inl FetchError" ex_polarity]
  by (simp add: calculate_fcf_ex_company_unavailable calculate_fcf_ex_company_loss)

section \<open>The valuation against the formulas of the specification\<close>

lemma worked_example_future_fcfs:
  "future_fcfs_of 1000000 (1 / 20) 5 = [1050000, 1102500, 1157625, 1215506.25, 1276281.5625]"
  using upt_5 by (simp add: future_fcfs_of_eq spec_futureFCF_def power_divide)

lemma worked_example_terminal_value:
  "terminal_value_of (future_fcfs_of 1000000 (1 / 20) 5) (1 / 10) (1 / 20)
     = Inr (Finite 26801912.8125)"
  by (simp add: worked_example_future_fcfs terminal_value_of_def last_item_def)

lemma nth_map_year:
  assumes "1 \<le> i" and "i \<le> n"
  shows "map (\<lambda>k. f (Suc k)) [0..<n] ! (i - 1) = f i"
proof -
  have "i - 1 < n" and "Suc (i - 1) = i"
    using assms by simp_all
  then show ?thesis
    by simp
qed

lemma nth_future_fcfs:
  "1 \<le> i \<Longrightarrow> i \<le> nat years \<Longrightarrow>
   future_fcfs_of fcf g years ! (i - 1) = spec_futureFCF fcf g i"
  unfolding future_fcfs_of_eq by (rule nth_map_year)

lemma spec_discountedFCF_positive:
  "0 < fcf \<Longrightarrow> 0 < 1 + g \<Longrightarrow> 0 < 1 + r \<Longrightarrow> 0 < spec_discountedFCF fcf r g i"
  by (simp add: spec_discountedFCF_def spec_futureFCF_def)

text \<open>
  C1 (as amended). For a strictly positive FCF, a horizon of at least one year, a growth
  rate g and a discount rate r other than g, the valuation computes
  futureFCF[i] = FCF * (1+g)^i and discountedFCF[i] = futureFCF[i] / (1+r)^i for
  i = 1..years, the terminal value TV = futureFCF[years] * (1+g) / (r - g), its discounted
  value TV / (1+r)^years, and returns the intrinsic value sum(discountedFCF) +
  discountedTV. The divisions by (1+r)^i are the program's: for r other than -1 every
  value is the finite value of the formula. For FCF = 1,000,000, five years, r = 0.10 and
  g = 0.05, futureFCF[5] is 1276281.56... and TV is 26,801,912.8...
\<close>

theorem dcf_computes_formulas:
  "(calculate_fcf c = Some fcf \<and> 0 < fcf \<and> 1 \<le> years \<and> r \<noteq> g \<longrightarrow>
      length (future_fcfs_of fcf g years) = nat years \<and>
      (\<forall>i. 1 \<le> i \<and> i \<le> nat years \<longrightarrow>
           future_fcfs_of fcf g years ! (i - 1) = spec_futureFCF fcf g i) \<and>
      terminal_value_of (future_fcfs_of fcf g years) r g
        = Inr (Finite (spec_TV fcf (nat years) r g)) \<and>
      (\<exists>res. discounted_cash_flow_analysis c years r g = Inr (Some res) \<and>
         length (perYearDiscountedFCF res) = nat years \<and>
         (\<forall>i. 1 \<le> i \<and> i \<le> nat years \<longrightarrow>
              perYearDiscountedFCF res ! (i - 1) =
                np_div (Finite (future_fcfs_of fcf g years ! (i - 1))) ((1 + r) ^ i)) \<and>
         discountedTerminalValue res =
           np_div (Finite (spec_TV fcf (nat years) r g)) ((1 + r) ^ nat years) \<and>
         intrinsicValue res =
           np_add (np_sum (perYearDiscountedFCF res)) (discountedTerminalValue res) \<and>
         (1 + r \<noteq> 0 \<longrightarrow>
            (\<forall>i. 1 \<le> i \<and> i \<le> nat years \<longrightarrow>
                 perYearDiscountedFCF res ! (i - 1) = Finite (spec_discountedFCF fcf r g i)) \<and>
            discountedTerminalValue res = Finite (spec_discountedTV fcf (nat years) r g) \<and>
            intrinsicValue res = Finite (spec_intrinsicValue fcf (nat years) r g))))
   \<and> calculate_fcf ex_company = Some 1000000
   \<and> 1276281.56 \<le> future_fcfs_of 1000000 0.05 5 ! 4
   \<and> future_fcfs_of 1000000 0.05 5 ! 4 < 1276281.57
   \<and> (\<exists>tv. terminal_value_of (future_fcfs_of 1000000 0.05 5) 0.10 0.05 = Inr (Finite tv) \<and>
            26801912.8 \<le> tv \<and> tv < 26801912.9)"
proof -
  have "length (future_fcfs_of fcf g years) = nat years \<and>
      (\<forall>i. 1 \<le> i \<and> i \<le> nat years \<longrightarrow>
           future_fcfs_of fcf g years ! (i - 1) = spec_futureFCF fcf g i) \<and>
      terminal_value_of (future_fcfs_of fcf g years) r g
        = Inr (Finite (spec_TV fcf (nat years) r g)) \<and>
      (\<exists>res. discounted_cash_flow_analysis c years r g = Inr (Some res) \<and>
         length (perYearDiscountedFCF res) = nat years \<and>
         (\<forall>i. 1 \<le> i \<and> i \<le> nat years \<longrightarrow>
              perYearDiscountedFCF res ! (i - 1) =
                np_div (Finite (future_fcfs_of fcf g years ! (i - 1))) ((1 + r) ^ i)) \<and>
         discountedTerminalValue res =
           np_div (Finite (spec_TV fcf (nat years) r g)) ((1 + r) ^ nat years) \<and>
         intrinsicValue res =
           np_add (np_sum (perYearDiscountedFCF res)) (discountedTerminalValue res) \<and>
         (1 + r \<noteq> 0 \<longrightarrow>
            (\<forall>i. 1 \<le> i \<and> i \<le> nat years \<longrightarrow>
                 perYearDiscountedFCF res ! (i - 1) = Finite (spec_discountedFCF fcf r g i)) \<and>
            discountedTerminalValue res = Finite (spec_discountedTV fcf (nat years) r g) \<and>
            intrinsicValue res = Finite (spec_intrinsicValue fcf (nat years) r g)))"
    if h: "calculate_fcf c = Some fcf" "0 < fcf" "1 \<le> years" "r \<noteq> g"
  proof -
    have len: "length (future_fcfs_of fcf g years) = nat years"
      by (simp add: future_fcfs_of_eq)
    have tvn: "np_div (Finite (spec_futureFCF fcf g (nat years) * (1 + g))) (r - g) =
               Finite (spec_TV fcf (nat years) r g)"
      using h(4) by (simp add: spec_TV_def)
    have tv: "terminal_value_of (future_fcfs_of fcf g years) r g =
              Inr (Finite (spec_TV fcf (nat years) r g))"
      unfolding terminal_value_future_fcfs [OF h(3)] tvn ..
    have f: "\<forall>i. 1 \<le> i \<and> i \<le> nat years \<longrightarrow>
           future_fcfs_of fcf g years ! (i - 1) = spec_futureFCF fcf g i"
      using nth_future_fcfs by blast
    define ds where "ds = discounted_fcfs_of (future_fcfs_of fcf g years) r"
    define dtv where
      "dtv = np_div (Finite (spec_TV fcf (nat years) r g)) ((1 + r) ^ nat years)"
    define mc where "mc = dict_get (info c) ''marketCap'' 0"
    define res where "res =
       \<lparr>intrinsicValue = np_add (np_sum ds) dtv, marketCap = mc,
        upsidePercent =
          (if mc > 0 then np_mul (np_div (np_sub (np_add (np_sum ds) dtv) mc) mc) 100
           else Finite 0),
        perYearDiscountedFCF = ds, discountedTerminalValue = dtv\<rparr>"
    have ret: "discounted_cash_flow_analysis c years r g = Inr (Some res)"
      unfolding dcf_total [OF h(1-3)] Let_def tvn res_def ds_def dtv_def mc_def ..
    have pr: "perYearDiscountedFCF res = ds"
      and tvd: "discountedTerminalValue res = dtv"
      and iv: "intrinsicValue res = np_add (np_sum ds) dtv"
      by (simp_all add: res_def)
    have l: "length (perYearDiscountedFCF res) = nat years"
      unfolding pr by (simp add: ds_def discounted_future_fcfs_div)
    have d: "\<forall>i. 1 \<le> i \<and> i \<le> nat years \<longrightarrow>
              perYearDiscountedFCF res ! (i - 1) =
                np_div (Finite (future_fcfs_of fcf g years ! (i - 1))) ((1 + r) ^ i)"
    proof (intro allI impI)
      fix i
      assume i: "1 \<le> i \<and> i \<le> nat years"
      then have "ds ! (i - 1) = np_div (Finite (spec_futureFCF fcf g i)) ((1 + r) ^ i)"
        unfolding ds_def discounted_future_fcfs_div
        using nth_map_year
          [of i "nat years" "\<lambda>k. np_div (Finite (spec_futureFCF fcf g k)) ((1 + r) ^ k)"]
        by simp
      then show "perYearDiscountedFCF res ! (i - 1) =
                 np_div (Finite (future_fcfs_of fcf g years ! (i - 1))) ((1 + r) ^ i)"
        unfolding pr using f i by simp
    qed
    have tvd': "discountedTerminalValue res =
                np_div (Finite (spec_TV fcf (nat years) r g)) ((1 + r) ^ nat years)"
      unfolding tvd dtv_def ..
    have iv': "intrinsicValue res =
               np_add (np_sum (perYearDiscountedFCF res)) (discountedTerminalValue res)"
      unfolding pr tvd iv ..
    have fin: "(\<forall>i. 1 \<le> i \<and> i \<le> nat years \<longrightarrow>
                 perYearDiscountedFCF res ! (i - 1) = Finite (spec_discountedFCF fcf r g i)) \<and>
            discountedTerminalValue res = Finite (spec_discountedTV fcf (nat years) r g) \<and>
            intrinsicValue res = Finite (spec_intrinsicValue fcf (nat years) r g)"
      if nz: "1 + r \<noteq> 0"
    proof -
      have dsf: "ds = map (\<lambda>k. Finite (spec_discountedFCF fcf r g (Suc k))) [0..<nat years]"
        unfolding ds_def by (rule discounted_future_fcfs [OF nz])
      have "\<forall>i. 1 \<le> i \<and> i \<le> nat years \<longrightarrow>
                 ds ! (i - 1) = Finite (spec_discountedFCF fcf r g i)"
        unfolding dsf
        using nth_map_year [of _ "nat years" "\<lambda>k. Finite (spec_discountedFCF fcf r g k)"]
        by blast
      moreover have dt: "dtv = Finite (spec_discountedTV fcf (nat years) r g)"
        using nz by (simp add: dtv_def spec_discountedTV_def)
      moreover have "np_add (np_sum ds) dtv =
                     Finite (spec_intrinsicValue fcf (nat years) r g)"
        unfolding dsf dt np_sum_discounted by (simp add: spec_intrinsicValue_def)
      ultimately show ?thesis
        unfolding pr tvd iv by blast
    qed
    show ?thesis
      using len f tv ret l d tvd' iv' fin by blast
  qed
  moreover have "(1276281.56 :: real) \<le> future_fcfs_of 1000000 0.05 5 ! 4"
    and "future_fcfs_of 1000000 0.05 5 ! 4 < (1276281.57 :: real)"
    by (simp_all add: worked_example_future_fcfs)
  moreover have
    "\<exists>tv. terminal_value_of (future_fcfs_of 1000000 0.05 5) 0.10 0.05 = Inr (Finite tv) \<and>
          26801912.8 \<le> tv \<and> tv < 26801912.9"
  proof (intro exI conjI)
    show "terminal_value_of (future_fcfs_of 1000000 0.05 5) 0.10 0.05
          = Inr (Finite 26801912.8125)"
      using worked_example_terminal_value by simp
  qed simp_all
  ultimately show ?thesis
    using calculate_fcf_ex_company by blast
qed

theorem dcf_computes_formulas_witness:
  "calculate_fcf ex_company = Some 1000000
   \<and> future_fcfs_of 1000000 0.05 5 ! (5 - 1) = 1000000 * (1 + 0.05) ^ 5
   \<and> (\<exists>res. discounted_cash_flow_analysis ex_company 5 0.10 0.05 = Inr (Some res) \<and>
         length (perYearDiscountedFCF res) = 5 \<and>
         perYearDiscountedFCF res ! (5 - 1)
           = Finite (1000000 * (1 + 0.05) ^ 5 / (1 + 0.10) ^ 5) \<and>
         discountedTerminalValue res = Finite (26801912.8125 / (1 + 0.10) ^ 5) \<and>
         intrinsicValue res = Finite 21000000)"
proof -
  note t = dcf_computes_formulas [of ex_company 1000000 5 "0.10" "0.05"]
  have h: "calculate_fcf ex_company = Some 1000000 \<and> (0::real) < 1000000 \<and> (1::int) \<le> 5 \<and>
           (0.10::real) \<noteq> 0.05"
    by (simp add: calculate_fcf_ex_company)
  have nz: "1 + (0.10::real) \<noteq> 0"
    by simp
  from t h nz obtain res where res:
    "discounted_cash_flow_analysis ex_company 5 0.10 0.05 = Inr (Some res)"
    "length (perYearDiscountedFCF res) = nat 5"
    "\<forall>i. 1 \<le> i \<and> i \<le> nat 5 \<longrightarrow>
       perYearDiscountedFCF res ! (i - 1) = Finite (spec_discountedFCF 1000000 0.10 0.05 i)"
    "discountedTerminalValue res = Finite (spec_discountedTV 1000000 (nat 5) 0.10 0.05)"
    "intrinsicValue res = Finite (spec_intrinsicValue 1000000 (nat 5) 0.10 0.05)"
    by blast
  from t h have f: "\<forall>i. 1 \<le> i \<and> i \<le> nat 5 \<longrightarrow>
       future_fcfs_of 1000000 0.05 5 ! (i - 1) = spec_futureFCF 1000000 0.05 i"
    by blast
  have "future_fcfs_of 1000000 0.05 5 ! (5 - 1) = spec_futureFCF 1000000 0.05 5"
    using f [rule_format, of 5] by simp
  moreover have "perYearDiscountedFCF res ! (5 - 1)
                 = Finite (spec_discountedFCF 1000000 0.10 0.05 5)"
    using res(3) [rule_format, of 5] by simp
  ultimately show ?thesis
    using res(1,2,4,5) h atLeastAtMost_1_5
    by (auto simp: spec_intrinsicValue_def spec_discountedTV_def spec_TV_def
        spec_discountedFCF_def spec_futureFCF_def power_divide)
qed

theorem dcf_raises_counterexample:
  "calculate_fcf ex_company = Some 1000000 \<and>
   discounted_cash_flow_analysis ex_company 0 0.10 0.05 = Inl IndexError"
  using dcf_no_horizon [OF calculate_fcf_ex_company, of 0 "0.10" "0.05"]
  by (simp add: calculate_fcf_ex_company)




text \<open>
  C9. For a strictly positive FCF, a horizon of at least one year and rates with
  1 + growth rate > 0 and 1 + discount rate > 0, the valuation returns a result, and its
  list of discounted cash flows, the one lines 51 and 52 compute, has exactly
  \<open>years\<close> entries, the entry of year i at position i, every entry finite and strictly
  positive.
\<close>

theorem dcf_per_year_discounted:
  assumes "calculate_fcf c = Some fcf" and "0 < fcf" and "1 \<le> years"
    and "0 < 1 + growth_rate" and "0 < 1 + discount_rate"
  shows "\<exists>discounted_fcfs.
           discounted_fcfs_of (future_fcfs_of fcf growth_rate years) discount_rate
             = discounted_fcfs \<and>
           length discounted_fcfs = nat years \<and>
           (\<forall>i. 1 \<le> i \<and> i \<le> nat years \<longrightarrow>
                discounted_fcfs ! (i - 1) =
                  Finite (spec_discountedFCF fcf discount_rate growth_rate i)) \<and>
           (\<forall>x\<in>set discounted_fcfs. \<exists>v. x = Finite v \<and> 0 < v) \<and>
           (\<forall>res. discounted_cash_flow_analysis c years discount_rate growth_rate
                    = Inr (Some res) \<longrightarrow> perYearDiscountedFCF res = discounted_fcfs) \<and>
           (\<exists>res. discounted_cash_flow_analysis c years discount_rate growth_rate
                    = Inr (Some res))"
proof -
  let ?ds = "map (\<lambda>k. Finite (spec_discountedFCF fcf discount_rate growth_rate (Suc k)))
                 [0..<nat years]"
  have nz: "1 + discount_rate \<noteq> 0"
    using assms(5) by simp
  have ds: "discounted_fcfs_of (future_fcfs_of fcf growth_rate years) discount_rate = ?ds"
    by (rule discounted_future_fcfs [OF nz])
  have pos: "\<forall>x\<in>set ?ds. \<exists>v. x = Finite v \<and> 0 < v"
    using spec_discountedFCF_positive [OF assms(2,4,5)] by auto
  obtain res0 where ret: "discounted_cash_flow_analysis c years discount_rate growth_rate
                    = Inr (Some res0)" and py: "perYearDiscountedFCF res0 = ?ds"
    using dcf_total [OF assms(1-3), of discount_rate growth_rate] ds
    by (simp add: Let_def)
  have same: "\<forall>res. discounted_cash_flow_analysis c years discount_rate growth_rate
                    = Inr (Some res) \<longrightarrow> perYearDiscountedFCF res = ?ds"
    using ret py by simp
  have nth: "\<forall>i. 1 \<le> i \<and> i \<le> nat years \<longrightarrow>
                ?ds ! (i - 1) = Finite (spec_discountedFCF fcf discount_rate growth_rate i)"
    using nth_map_year
      [of _ "nat years" "\<lambda>k. Finite (spec_discountedFCF fcf discount_rate growth_rate k)"]
    by blast
  have len: "length ?ds = nat years"
    by simp
  show ?thesis
    unfolding ds using len nth pos same ret by blast
qed

theorem dcf_per_year_discounted_witness:
  "calculate_fcf ex_company = Some 1000000 \<and>
   discounted_fcfs_of (future_fcfs_of 1000000 0.05 5) 0.10 =
     [Finite (10500000 / 11), Finite (110250000 / 121), Finite (1157625000 / 1331),
      Finite (12155062500 / 14641), Finite (127628156250 / 161051)] \<and>
   (\<exists>res. discounted_cash_flow_analysis ex_company 5 0.10 0.05 = Inr (Some res) \<and>
         perYearDiscountedFCF res =
           [Finite (10500000 / 11), Finite (110250000 / 121), Finite (1157625000 / 1331),
            Finite (12155062500 / 14641), Finite (127628156250 / 161051)]) \<and>
   (\<exists>res. discounted_cash_flow_analysis ex_company 5 0.10 0.10 = Inr (Some res))"
proof -
  have h: "(0::real) < 1000000" "(1::int) \<le> 5" "(0::real) < 1 + 0.05" "(0::real) < 1 + 0.10"
    by simp_all
  from dcf_per_year_discounted [OF calculate_fcf_ex_company h]
  obtain ds where ds:
    "discounted_fcfs_of (future_fcfs_of 1000000 0.05 5) 0.10 = ds"
    "\<forall>res. discounted_cash_flow_analysis ex_company 5 0.10 0.05 = Inr (Some res) \<longrightarrow>
           perYearDiscountedFCF res = ds"
    by auto
  have "perYearDiscountedFCF
          \<lparr>intrinsicValue = Finite 21000000, marketCap = 20000000, upsidePercent = Finite 5,
           perYearDiscountedFCF =
             [Finite (10500000 / 11), Finite (110250000 / 121), Finite (1157625000 / 1331),
              Finite (12155062500 / 14641), Finite (127628156250 / 161051)],
           discountedTerminalValue = Finite (2680191281250 / 161051)\<rparr> = ds"
    using ds(2) dcf_ex_company by simp
  then have "ds = [Finite (10500000 / 11), Finite (110250000 / 121),
                   Finite (1157625000 / 1331), Finite (12155062500 / 14641),
                   Finite (127628156250 / 161051)]"
    by simp
  moreover have "\<exists>res. discounted_cash_flow_analysis ex_company 5 0.10 0.10 = Inr (Some res)"
    using dcf_per_year_discounted [OF calculate_fcf_ex_company h(1,2) h(4) h(4)] by blast
  ultimately show ?thesis
    using ds(1) dcf_ex_company by (simp add: calculate_fcf_ex_company)
qed

section \<open>Sign and monotonicity of the intrinsic value\<close>

lemma spec_discountedTV_eq:
  "spec_discountedTV fcf n r g = fcf * (1 + g) ^ Suc n / (r - g) / (1 + r) ^ n"
  by (simp add: spec_discountedTV_def spec_TV_def spec_futureFCF_def mult.assoc)

lemma spec_intrinsicValue_positive:
  assumes "0 < fcf" and "- 1 < g" and "g < r"
  shows "0 < spec_intrinsicValue fcf n r g"
proof -
  have g: "0 < 1 + g" and r: "0 < 1 + r" and d: "0 < r - g"
    using assms by simp_all
  have "0 \<le> (\<Sum>i = 1..n. spec_discountedFCF fcf r g i)"
    using spec_discountedFCF_positive [OF assms(1) g r]
    by (intro sum_nonneg) (simp add: less_imp_le)
  moreover have "0 < spec_discountedTV fcf n r g"
    unfolding spec_discountedTV_eq using assms(1) g r d by simp
  ultimately show ?thesis
    by (simp add: spec_intrinsicValue_def)
qed

lemma spec_intrinsicValue_growth_mono:
  assumes "0 < fcf" and "- 1 < g1" and "g1 < g2" and "g2 < r"
  shows "spec_intrinsicValue fcf n r g1 < spec_intrinsicValue fcf n r g2"
proof -
  have g1: "0 < 1 + g1" and g2: "0 < 1 + g2" and r: "0 < 1 + r"
    and d1: "0 < r - g1" and d2: "0 < r - g2" and d: "r - g2 \<le> r - g1"
    using assms by simp_all
  have each: "spec_discountedFCF fcf r g1 i \<le> spec_discountedFCF fcf r g2 i" for i
  proof -
    have "(1 + g1) ^ i \<le> (1 + g2) ^ i"
      using g1 assms(3) by (intro power_mono) simp_all
    then have "fcf * (1 + g1) ^ i \<le> fcf * (1 + g2) ^ i"
      using assms(1) by simp
    then show ?thesis
      unfolding spec_discountedFCF_def spec_futureFCF_def
      using r by (intro divide_right_mono) simp_all
  qed
  have "(1 + g1) ^ Suc n < (1 + g2) ^ Suc n"
    using g1 assms(3) by (intro power_strict_mono) simp_all
  then have num: "fcf * (1 + g1) ^ Suc n < fcf * (1 + g2) ^ Suc n"
    using assms(1) by simp
  have "0 \<le> fcf * (1 + g1) ^ Suc n"
    using assms(1) g1 by simp
  then have "fcf * (1 + g1) ^ Suc n / (r - g1) < fcf * (1 + g2) ^ Suc n / (r - g2)"
    using num d2 d by (rule frac_less)
  then have "spec_discountedTV fcf n r g1 < spec_discountedTV fcf n r g2"
    unfolding spec_discountedTV_eq using r by (intro divide_strict_right_mono) simp_all
  moreover have "(\<Sum>i = 1..n. spec_discountedFCF fcf r g1 i)
               \<le> (\<Sum>i = 1..n. spec_discountedFCF fcf r g2 i)"
    by (intro sum_mono each)
  ultimately show ?thesis
    by (simp add: spec_intrinsicValue_def)
qed

lemma spec_intrinsicValue_discount_antimono:
  assumes "0 < fcf" and "- 1 < g" and "g < r1" and "r1 < r2"
  shows "spec_intrinsicValue fcf n r2 g < spec_intrinsicValue fcf n r1 g"
proof -
  have g: "0 < 1 + g" and r1: "0 < 1 + r1" and r2: "0 < 1 + r2"
    and d1: "0 < r1 - g" and d2: "0 < r2 - g" and d: "r1 - g < r2 - g"
    using assms by simp_all
  have pw: "(1 + r1) ^ i \<le> (1 + r2) ^ i" for i
    using r1 assms(4) by (intro power_mono) simp_all
  have p1: "0 < (1 + r1) ^ i" for i
    using r1 by simp
  have p2: "0 < (1 + r2) ^ i * (1 + r1) ^ i" for i
    using r1 r2 by simp
  have each: "spec_discountedFCF fcf r2 g i \<le> spec_discountedFCF fcf r1 g i" for i
  proof -
    have "0 \<le> fcf * (1 + g) ^ i"
      using assms(1) g by simp
    then show ?thesis
      unfolding spec_discountedFCF_def spec_futureFCF_def
      using pw p2 by (intro divide_left_mono)
  qed
  have num: "0 < fcf * (1 + g) ^ Suc n"
    using assms(1) g by simp
  have lt: "fcf * (1 + g) ^ Suc n / (r2 - g) < fcf * (1 + g) ^ Suc n / (r1 - g)"
    using d num d1 d2 by (intro divide_strict_left_mono) simp_all
  have nonneg: "0 \<le> fcf * (1 + g) ^ Suc n / (r2 - g)"
    using num d2 by simp
  have "fcf * (1 + g) ^ Suc n / (r2 - g) / (1 + r2) ^ n
       < fcf * (1 + g) ^ Suc n / (r1 - g) / (1 + r1) ^ n"
    by (rule frac_less [OF nonneg lt p1 pw])
  then have "spec_discountedTV fcf n r2 g < spec_discountedTV fcf n r1 g"
    unfolding spec_discountedTV_eq .
  moreover have "(\<Sum>i = 1..n. spec_discountedFCF fcf r2 g i)
               \<le> (\<Sum>i = 1..n. spec_discountedFCF fcf r1 g i)"
    by (intro sum_mono each)
  ultimately show ?thesis
    by (simp add: spec_intrinsicValue_def)
qed

lemma dcf_intrinsic_value:
  assumes "calculate_fcf c = Some fcf" and "0 < fcf" and "1 \<le> years"
    and "- 1 < g" and "g < r"
  shows "\<exists>res. discounted_cash_flow_analysis c years r g = Inr (Some res) \<and>
           intrinsicValue res = Finite (spec_intrinsicValue fcf (nat years) r g)"
proof -
  have "1 + r \<noteq> 0" and "r \<noteq> g"
    using assms(4,5) by simp_all
  from dcf_returns [OF assms(1-3) this] show ?thesis
    by simp
qed

lemma dcf_negative_growth:
  "discounted_cash_flow_analysis ex_company 5 (1 / 10) (- 1) =
     Inr (Some \<lparr>intrinsicValue = Finite 0, marketCap = 20000000,
                 upsidePercent = Finite (- 100),
                 perYearDiscountedFCF = [Finite 0, Finite 0, Finite 0, Finite 0, Finite 0],
                 discountedTerminalValue = Finite 0\<rparr>)"
proof -
  have "dict_get (info ex_company) ''marketCap'' 0 = 20000000"
    by (simp add: dict_get_def ex_company_def)
  then show ?thesis
    using upt_5 atLeastAtMost_1_5
    unfolding dcf_returns
      [of ex_company 1000000 5 "1 / 10" "- 1", OF calculate_fcf_ex_company, simplified]
    by (simp add: spec_intrinsicValue_def spec_discountedTV_def spec_TV_def
        spec_discountedFCF_def spec_futureFCF_def spec_upside_def)
qed

text \<open>
  C3 (as amended). For a strictly positive FCF, a horizon of at least one year and a
  growth rate strictly between -1 and the discount rate, the valuation returns an
  intrinsic value that is finite and strictly positive, strictly increasing in the growth
  rate with the discount rate fixed, and strictly decreasing in the discount rate with the
  growth rate fixed.
\<close>

theorem dcf_intrinsic_value_monotone:
  assumes "calculate_fcf c = Some fcf" and "0 < fcf" and "1 \<le> years"
  shows "(- 1 < g \<and> g < r \<longrightarrow>
            (\<exists>res v. discounted_cash_flow_analysis c years r g = Inr (Some res) \<and>
                   intrinsicValue res = Finite v \<and> 0 < v)) \<and>
         (- 1 < g1 \<and> g1 < g2 \<and> g2 < r \<longrightarrow>
            (\<exists>res1 res2 v1 v2.
                discounted_cash_flow_analysis c years r g1 = Inr (Some res1) \<and>
                discounted_cash_flow_analysis c years r g2 = Inr (Some res2) \<and>
                intrinsicValue res1 = Finite v1 \<and> intrinsicValue res2 = Finite v2 \<and>
                v1 < v2)) \<and>
         (- 1 < g \<and> g < r1 \<and> r1 < r2 \<longrightarrow>
            (\<exists>res1 res2 v1 v2.
                discounted_cash_flow_analysis c years r1 g = Inr (Some res1) \<and>
                discounted_cash_flow_analysis c years r2 g = Inr (Some res2) \<and>
                intrinsicValue res1 = Finite v1 \<and> intrinsicValue res2 = Finite v2 \<and>
                v2 < v1))"
proof (intro conjI impI)
  assume "- 1 < g \<and> g < r"
  then show "\<exists>res v. discounted_cash_flow_analysis c years r g = Inr (Some res) \<and>
                   intrinsicValue res = Finite v \<and> 0 < v"
    using dcf_intrinsic_value [OF assms, of g r]
      spec_intrinsicValue_positive [OF assms(2), of g r "nat years"]
    by auto
next
  assume h: "- 1 < g1 \<and> g1 < g2 \<and> g2 < r"
  then have "- 1 < g1" "g1 < r" "- 1 < g2" "g2 < r" "g1 < g2"
    by simp_all
  then show "\<exists>res1 res2 v1 v2.
                discounted_cash_flow_analysis c years r g1 = Inr (Some res1) \<and>
                discounted_cash_flow_analysis c years r g2 = Inr (Some res2) \<and>
                intrinsicValue res1 = Finite v1 \<and> intrinsicValue res2 = Finite v2 \<and>
                v1 < v2"
    using dcf_intrinsic_value [OF assms, of g1 r] dcf_intrinsic_value [OF assms, of g2 r]
      spec_intrinsicValue_growth_mono [OF assms(2), of g1 g2 r "nat years"]
    by auto
next
  assume h: "- 1 < g \<and> g < r1 \<and> r1 < r2"
  then have "- 1 < g" "g < r1" "g < r2" "r1 < r2"
    by simp_all
  then show "\<exists>res1 res2 v1 v2.
                discounted_cash_flow_analysis c years r1 g = Inr (Some res1) \<and>
                discounted_cash_flow_analysis c years r2 g = Inr (Some res2) \<and>
                intrinsicValue res1 = Finite v1 \<and> intrinsicValue res2 = Finite v2 \<and>
                v2 < v1"
    using dcf_intrinsic_value [OF assms, of g r1] dcf_intrinsic_value [OF assms, of g r2]
      spec_intrinsicValue_discount_antimono [OF assms(2), of g r1 r2 "nat years"]
    by auto
qed

theorem dcf_intrinsic_value_monotone_witness:
  "calculate_fcf ex_company = Some 1000000 \<and>
   (\<exists>res v. discounted_cash_flow_analysis ex_company 5 0.10 0.05 = Inr (Some res) \<and>
         intrinsicValue res = Finite v \<and> 0 < v) \<and>
   (\<exists>res1 res2 v1 v2.
       discounted_cash_flow_analysis ex_company 5 0.10 0.04 = Inr (Some res1) \<and>
       discounted_cash_flow_analysis ex_company 5 0.10 0.05 = Inr (Some res2) \<and>
       intrinsicValue res1 = Finite v1 \<and> intrinsicValue res2 = Finite v2 \<and> v1 < v2) \<and>
   (\<exists>res1 res2 v1 v2.
       discounted_cash_flow_analysis ex_company 5 0.10 0.05 = Inr (Some res1) \<and>
       discounted_cash_flow_analysis ex_company 5 0.12 0.05 = Inr (Some res2) \<and>
       intrinsicValue res1 = Finite v1 \<and> intrinsicValue res2 = Finite v2 \<and> v2 < v1)"
proof -
  have h: "(0::real) < 1000000" "(1::int) \<le> 5"
    by simp_all
  note t = dcf_intrinsic_value_monotone [OF calculate_fcf_ex_company h]
  have "\<exists>res v. discounted_cash_flow_analysis ex_company 5 0.10 0.05 = Inr (Some res) \<and>
         intrinsicValue res = Finite v \<and> 0 < v"
    using t [of "0.05" "0.10" 0 0 0 0] by simp
  moreover have "\<exists>res1 res2 v1 v2.
       discounted_cash_flow_analysis ex_company 5 0.10 0.04 = Inr (Some res1) \<and>
       discounted_cash_flow_analysis ex_company 5 0.10 0.05 = Inr (Some res2) \<and>
       intrinsicValue res1 = Finite v1 \<and> intrinsicValue res2 = Finite v2 \<and> v1 < v2"
    using t [of "0.04" "0.10" "0.04" "0.05" 0 0] by simp
  moreover have "\<exists>res1 res2 v1 v2.
       discounted_cash_flow_analysis ex_company 5 0.10 0.05 = Inr (Some res1) \<and>
       discounted_cash_flow_analysis ex_company 5 0.12 0.05 = Inr (Some res2) \<and>
       intrinsicValue res1 = Finite v1 \<and> intrinsicValue res2 = Finite v2 \<and> v2 < v1"
    using t [of "0.05" "0.10" 0 0 "0.10" "0.12"] by simp
  ultimately show ?thesis
    using calculate_fcf_ex_company by blast
qed

theorem dcf_intrinsic_value_zero_counterexample:
  "calculate_fcf ex_company = Some 1000000 \<and> (- 1 :: real) < 0.10 \<and>
   discounted_cash_flow_analysis ex_company 5 0.10 (- 1) =
     Inr (Some \<lparr>intrinsicValue = Finite 0, marketCap = 20000000,
                 upsidePercent = Finite (- 100),
                 perYearDiscountedFCF = [Finite 0, Finite 0, Finite 0, Finite 0, Finite 0],
                 discountedTerminalValue = Finite 0\<rparr>) \<and>
   discounted_cash_flow_analysis ex_company 0 0.10 0.05 = Inl IndexError"
  using dcf_negative_growth dcf_no_horizon [OF calculate_fcf_ex_company, of 0 "0.10" "0.05"]
  by (simp add: calculate_fcf_ex_company)

end
